theory Spec2Isabelle
  imports Main "HOL-Library.Word"
begin

section \<open>BinJSON: envelope codec, chunker and stream reassembler\<close>

text \<open>
  A shallow embedding of \<^verbatim>\<open>binjson.js\<close> (the extended edition with WebSocket
  streaming). Buffers are lists of bytes, JavaScript exceptions are values of the
  type \<open>error\<close>, mutable fields are passed and returned explicitly, and the
  libraries the file requires (msgpack-lite, zlib, crypto-js) are a record of
  functions that every definition takes as its first argument.
\<close>

subsection \<open>Buffers\<close>

type_synonym byte = "8 word"
type_synonym buffer = "byte list"

text \<open>The classes of errors the file throws or lets through.\<close>

datatype error =
    BinJSONError
  | SchemaError
  | SecurityError
  | NetworkError
  | RangeError
  | TypeError
  | MsgpackError
  | ZlibError
  | FsError

text \<open>
  \<^verbatim>\<open>buf.slice(s, e)\<close> for non-negative indices: both ends are clamped to the length,
  and the slice is empty when \<open>e \<le> s\<close>.
\<close>

definition slice :: "buffer \<Rightarrow> nat \<Rightarrow> nat \<Rightarrow> buffer" where
  "slice buf s e = take (e - s) (drop s buf)"

subsection \<open>DataHandler\<close>

text \<open>
  \<^verbatim>\<open>
  const CHUNK_SIZE = 1024;
  class DataHandler {
    constructor(mode = 'batch', chunkSize = CHUNK_SIZE) { ... }
    process(data) {
      if (this.mode === 'batch') {
        return data;
      } else {
        const chunks = [];
        for (let i = 0; i < data.length; i += this.chunkSize) {
          chunks.push(data.slice(i, i + this.chunkSize));
        }
        return chunks;
      }
    }
  }
  \<close>
  In batch mode the method returns the buffer itself, otherwise an array of buffers:
  the two shapes are the two constructors of \<open>process_result\<close>. The chunk size is a
  natural number; with chunk size 0 the loop never ends, which is the value \<open>None\<close>.
\<close>

definition CHUNK_SIZE :: nat where
  "CHUNK_SIZE = 1024"

record DataHandler =
  mode :: string
  chunkSize :: nat

definition new_DataHandler :: DataHandler where
  "new_DataHandler = \<lparr>mode = ''batch'', chunkSize = CHUNK_SIZE\<rparr>"

datatype process_result = Whole buffer | Chunks "buffer list"

partial_function (option) process_loop ::
    "buffer \<Rightarrow> nat \<Rightarrow> nat \<Rightarrow> buffer list \<Rightarrow> buffer list option" where
  "process_loop data n i chunks =
     (if i < length data
      then process_loop data n (i + n) (chunks @ [slice data i (i + n)])
      else Some chunks)"

declare process_loop.simps [code]

definition process :: "DataHandler \<Rightarrow> buffer \<Rightarrow> process_result option" where
  "process h data =
     (if mode h = ''batch'' then Some (Whole data)
      else map_option Chunks (process_loop data (chunkSize h) 0 []))"

text \<open>
  The slices the streaming loop produces, as a total function for positive chunk
  sizes; it is the loop's result (lemma \<open>process_loop_slices\<close>).
\<close>

function slices :: "nat \<Rightarrow> buffer \<Rightarrow> buffer list" where
  "slices n xs = (if xs = [] \<or> n = 0 then [] else slice xs 0 n # slices n (drop n xs))"
  by pat_completeness auto
termination
  by (relation "measure (\<lambda>(n, xs). length xs)") auto

declare slices.simps [simp del]

subsection \<open>Integers and text in buffers\<close>

text \<open>
  \<^verbatim>\<open>buf.readUInt32BE(off)\<close> and \<^verbatim>\<open>buf.writeUInt32BE(v, off)\<close> of Node's Buffer: both
  throw a RangeError when the four bytes do not lie inside the buffer, and the write
  also when the value is not in the range of an unsigned 32-bit integer.
\<close>

definition be32_bytes :: "nat \<Rightarrow> buffer" where
  "be32_bytes v = [of_nat (v div 2 ^ 24), of_nat (v div 2 ^ 16), of_nat (v div 2 ^ 8), of_nat v]"

definition readUInt32BE :: "buffer \<Rightarrow> nat \<Rightarrow> error + nat" where
  "readUInt32BE buf off =
     (if length buf < off + 4 then Inl RangeError
      else Inr (unat (buf ! off) * 2 ^ 24 + unat (buf ! (off + 1)) * 2 ^ 16
                + unat (buf ! (off + 2)) * 2 ^ 8 + unat (buf ! (off + 3))))"

definition writeUInt32BE :: "buffer \<Rightarrow> int \<Rightarrow> nat \<Rightarrow> error + buffer" where
  "writeUInt32BE buf v off =
     (if v < 0 \<or> 4294967295 < v then Inl RangeError
      else if length buf < off + 4 then Inl RangeError
      else Inr (take off buf @ be32_bytes (nat v) @ drop (off + 4) buf))"

text \<open>
  Hexadecimal text: \<^verbatim>\<open>buf.toString('hex')\<close> and the default \<^verbatim>\<open>toString()\<close> of a
  crypto-js WordArray write two lower-case digits per byte; \<^verbatim>\<open>Buffer.from(s, 'hex')\<close>
  and \<^verbatim>\<open>CryptoJS.enc.Hex.parse(s)\<close> read pairs of digits (the former stops at the
  first pair that is not hexadecimal).
\<close>

definition hex_digit :: "nat \<Rightarrow> char" where
  "hex_digit n = (if n < 10 then char_of (48 + n) else char_of (87 + n))"

definition hex_value :: "char \<Rightarrow> nat option" where
  "hex_value c =
     (let n = (of_char c :: nat) in
      if 48 \<le> n \<and> n \<le> 57 then Some (n - 48)
      else if 97 \<le> n \<and> n \<le> 102 then Some (n - 87)
      else if 65 \<le> n \<and> n \<le> 70 then Some (n - 55)
      else None)"

definition toHex :: "buffer \<Rightarrow> string" where
  "toHex buf = concat (map (\<lambda>b. [hex_digit (unat b div 16), hex_digit (unat b mod 16)]) buf)"

fun fromHex :: "string \<Rightarrow> buffer" where
  "fromHex (a # b # rest) =
     (case hex_value a of
        None \<Rightarrow> []
      | Some h \<Rightarrow>
          (case hex_value b of
             None \<Rightarrow> []
           | Some l \<Rightarrow> of_nat (16 * h + l) # fromHex rest))"
| "fromHex _ = []"

text \<open>
  Base64 text as \<^verbatim>\<open>CryptoJS.enc.Base64.stringify\<close> writes it (the standard alphabet,
  padded with \<^verbatim>\<open>=\<close>), and the bytes \<^verbatim>\<open>Buffer.from(text, 'utf8')\<close> holds for a text of
  ASCII characters.
\<close>

definition b64_char :: "nat \<Rightarrow> char" where
  "b64_char n =
     ''ABCDEFGHIJKLMNOPQRSTUVWXYZabcdefghijklmnopqrstuvwxyz0123456789+/'' ! n"

fun base64 :: "buffer \<Rightarrow> string" where
  "base64 [] = []"
| "base64 [a] =
     (let t = unat a * 65536
      in [b64_char (t div 262144), b64_char (t div 4096 mod 64), CHR ''='', CHR ''=''])"
| "base64 [a, b] =
     (let t = unat a * 65536 + unat b * 256
      in [b64_char (t div 262144), b64_char (t div 4096 mod 64),
          b64_char (t div 64 mod 64), CHR ''=''])"
| "base64 (a # b # c # rest) =
     (let t = unat a * 65536 + unat b * 256 + unat c
      in [b64_char (t div 262144), b64_char (t div 4096 mod 64),
          b64_char (t div 64 mod 64), b64_char (t mod 64)] @ base64 rest)"

definition ascii_bytes :: "string \<Rightarrow> buffer" where
  "ascii_bytes s = map (\<lambda>c. of_nat (of_char c)) s"

subsection \<open>JavaScript values and the required libraries\<close>

text \<open>
  The values that are serialised. Numbers are the integer-valued ones; an object is
  the list of its properties in order, with distinct keys.
\<close>

datatype jsval =
    JUndefined
  | JNull
  | JBool bool
  | JNum int
  | JStr string
  | JArr "jsval list"
  | JObj "(string \<times> jsval) list"

text \<open>
  Reading a property \<^verbatim>\<open>v.k\<close>: a TypeError on \<^verbatim>\<open>null\<close> and \<^verbatim>\<open>undefined\<close>,
  \<^verbatim>\<open>undefined\<close> when the property is absent.
\<close>

fun get_prop :: "jsval \<Rightarrow> string \<Rightarrow> error + jsval" where
  "get_prop JUndefined k = Inl TypeError"
| "get_prop JNull k = Inl TypeError"
| "get_prop (JObj kvs) k = Inr (case map_of kvs k of None \<Rightarrow> JUndefined | Some v \<Rightarrow> v)"
| "get_prop _ k = Inr JUndefined"

text \<open>
  The libraries. A function that can throw returns an option, \<open>None\<close> when it throws.
  \<^item> \<open>msgpack_encode\<close>, \<open>msgpack_decode\<close>: \<^verbatim>\<open>msgpack.encode\<close>, \<^verbatim>\<open>msgpack.decode\<close>;
  \<^item> \<open>deflateSync\<close>, \<open>inflateSync\<close>: those of \<^verbatim>\<open>zlib\<close>;
  \<^item> \<open>AES_encrypt key iv data\<close>: the ciphertext bytes of
    \<^verbatim>\<open>CryptoJS.AES.encrypt(WordArray.create(data), Utf8.parse(key), {iv})\<close>;
  \<^item> \<open>AES_decrypt_Utf8 key iv text\<close>: the bytes of
    \<^verbatim>\<open>Buffer.from(CryptoJS.AES.decrypt(text, Utf8.parse(key), {iv}).toString(CryptoJS.enc.Utf8))\<close>
    where \<open>text\<close> holds the bytes of the ciphertext's text.
\<close>

record extlib =
  msgpack_encode :: "jsval \<Rightarrow> buffer"
  msgpack_decode :: "buffer \<Rightarrow> jsval option"
  deflateSync :: "buffer \<Rightarrow> buffer"
  inflateSync :: "buffer \<Rightarrow> buffer option"
  AES_encrypt :: "string \<Rightarrow> buffer \<Rightarrow> buffer \<Rightarrow> buffer option"
  AES_decrypt_Utf8 :: "string \<Rightarrow> buffer \<Rightarrow> buffer \<Rightarrow> buffer option"

definition decode_or_throw :: "extlib \<Rightarrow> buffer \<Rightarrow> error + jsval" where
  "decode_or_throw L buf =
     (case msgpack_decode L buf of None \<Rightarrow> Inl MsgpackError | Some v \<Rightarrow> Inr v)"

subsection \<open>BinaryJSON\<close>

text \<open>
  \<^verbatim>\<open>
  const MAGIC_NUMBER = Buffer.from([0x42, 0x4A]);
  const DEFAULT_SCHEMA_ID = 1;
  static fromDict(data, schemaId = DEFAULT_SCHEMA_ID, compress = true) {
    const metadata = { schema_id: schemaId, timestamp: Date.now(),
                       compression: compress ? 'zlib' : 'none' };
    let payload = msgpack.encode(data);
    if (compress) { payload = zlib.deflateSync(payload); }
    const header = Buffer.concat([MAGIC_NUMBER, Buffer.alloc(4)]);
    header.writeUInt32BE(schemaId, 2);
    return new BinaryJSON(header, metadata, payload);
  }
  toDict() {
    let decompressed = this.payload;
    if (this.metadata.compression === 'zlib') {
      decompressed = zlib.inflateSync(this.payload);
    }
    return msgpack.decode(decompressed);
  }
  \<close>
  The clock's value \<^verbatim>\<open>Date.now()\<close> is the argument \<open>now\<close>.
\<close>

definition MAGIC_NUMBER :: buffer where
  "MAGIC_NUMBER = [0x42, 0x4A]"

definition DEFAULT_SCHEMA_ID :: int where
  "DEFAULT_SCHEMA_ID = 1"

record BinaryJSON =
  header :: buffer
  metadata :: jsval
  payload :: buffer

definition fromDict :: "extlib \<Rightarrow> int \<Rightarrow> jsval \<Rightarrow> int \<Rightarrow> bool \<Rightarrow> error + BinaryJSON" where
  "fromDict L now data schemaId compress =
     (let md = JObj [(''schema_id'', JNum schemaId),
                     (''timestamp'', JNum now),
                     (''compression'', JStr (if compress then ''zlib'' else ''none''))];
          p0 = msgpack_encode L data;
          p = (if compress then deflateSync L p0 else p0)
      in case writeUInt32BE (MAGIC_NUMBER @ replicate 4 0) schemaId 2 of
           Inl e \<Rightarrow> Inl e
         | Inr h \<Rightarrow> Inr \<lparr>header = h, metadata = md, payload = p\<rparr>)"

definition toDict :: "extlib \<Rightarrow> BinaryJSON \<Rightarrow> error + jsval" where
  "toDict L E =
     (case get_prop (metadata E) ''compression'' of
        Inl e \<Rightarrow> Inl e
      | Inr tag \<Rightarrow>
          if tag = JStr ''zlib''
          then (case inflateSync L (payload E) of
                  None \<Rightarrow> Inl ZlibError
                | Some d \<Rightarrow> decode_or_throw L d)
          else decode_or_throw L (payload E))"

subsection \<open>SchemaValidator and SecurityManager\<close>

text \<open>
  \<^verbatim>\<open>
  validate(data) {
    if (!this.validateFn(data)) { throw new SchemaError(...); }
    return true;
  }
  \<close>
  The compiled schema \<^verbatim>\<open>validateFn\<close> is a predicate on values.
\<close>

record SchemaValidator =
  validateFn :: "jsval \<Rightarrow> bool"

definition validate :: "SchemaValidator \<Rightarrow> jsval \<Rightarrow> error + bool" where
  "validate sv data = (if \<not> validateFn sv data then Inl SchemaError else Inr True)"

text \<open>
  \<^verbatim>\<open>
  encrypt(data) {
    try {
      const iv = CryptoJS.lib.WordArray.random(16);
      const encrypted = CryptoJS.AES.encrypt(
        CryptoJS.lib.WordArray.create(data), CryptoJS.enc.Utf8.parse(this.key), { iv });
      return Buffer.concat([
        Buffer.from(iv.toString(), 'hex'),
        Buffer.from(encrypted.toString(), 'utf8'),
      ]);
    } catch (e) { throw new SecurityError(...); }
  }
  decrypt(data) {
    try {
      const iv = CryptoJS.enc.Hex.parse(data.slice(0, 32).toString('hex'));
      const encrypted = data.slice(32).toString('utf8');
      const decrypted = CryptoJS.AES.decrypt(
        encrypted, CryptoJS.enc.Utf8.parse(this.key), { iv });
      return Buffer.from(decrypted.toString(CryptoJS.enc.Utf8));
    } catch (e) { throw new SecurityError(...); }
  }
  \<close>
  The 16 random bytes are the argument \<open>iv\<close>. The key is a WordArray, so
  \<^verbatim>\<open>encrypted.toString()\<close> is the Base64 text of the ciphertext, without a salt.
\<close>

record SecurityManager =
  key :: string

definition encrypt :: "extlib \<Rightarrow> SecurityManager \<Rightarrow> buffer \<Rightarrow> buffer \<Rightarrow> error + buffer" where
  "encrypt L sm iv data =
     (case AES_encrypt L (key sm) iv data of
        None \<Rightarrow> Inl SecurityError
      | Some ct \<Rightarrow> Inr (fromHex (toHex iv) @ ascii_bytes (base64 ct)))"

definition decrypt :: "extlib \<Rightarrow> SecurityManager \<Rightarrow> buffer \<Rightarrow> error + buffer" where
  "decrypt L sm data =
     (let iv = fromHex (toHex (slice data 0 32));
          encrypted = drop 32 data
      in case AES_decrypt_Utf8 L (key sm) iv encrypted of
           None \<Rightarrow> Inl SecurityError
         | Some d \<Rightarrow> Inr d)"

subsection \<open>BinJSON\<close>

text \<open>
  \<^verbatim>\<open>
  serialize(data, schemaId = DEFAULT_SCHEMA_ID, compress = true, encrypt = false) {
    if (this.validator) { this.validator.validate(data); }
    const binaryJson = BinaryJSON.fromDict(data, schemaId, compress);
    if (encrypt) { binaryJson.payload = this.security.encrypt(binaryJson.payload); }
    return binaryJson;
  }
  deserialize(binaryJson, decrypt = false) {
    if (decrypt) { binaryJson.payload = this.security.decrypt(binaryJson.payload); }
    return binaryJson.toDict();
  }
  setHandlerMode(mode, chunkSize = CHUNK_SIZE) {
    this.handler.mode = mode; this.handler.chunkSize = chunkSize;
  }
  \<close>
  \<open>serialize\<close> returns, with its outcome, the calls it made to the validator, to
  \<open>fromDict\<close> and to \<open>encrypt\<close>, in order. \<open>deserialize\<close> is given a reference to
  an envelope object in a store and returns the store after the call, since it
  assigns to a field of its argument.
\<close>

record BinJSON =
  validator :: "SchemaValidator option"
  security :: SecurityManager
  handler :: DataHandler

definition new_BinJSON :: "(jsval \<Rightarrow> bool) option \<Rightarrow> string \<Rightarrow> BinJSON" where
  "new_BinJSON schema securityKey =
     \<lparr>validator = map_option (\<lambda>f. \<lparr>validateFn = f\<rparr>) schema,
      security = \<lparr>key = securityKey\<rparr>,
      handler = new_DataHandler\<rparr>"

datatype call = Call_validate | Call_fromDict | Call_encrypt

definition logged :: "call \<Rightarrow> call list \<times> 'a \<Rightarrow> call list \<times> 'a" where
  "logged c r = (c # fst r, snd r)"

definition serialize_encode ::
    "extlib \<Rightarrow> BinJSON \<Rightarrow> int \<Rightarrow> buffer \<Rightarrow> jsval \<Rightarrow> int \<Rightarrow> bool \<Rightarrow> bool
     \<Rightarrow> call list \<times> (error + BinaryJSON)" where
  "serialize_encode L bj now iv data schemaId compress enc =
     logged Call_fromDict
       (case fromDict L now data schemaId compress of
          Inl e \<Rightarrow> ([], Inl e)
        | Inr E \<Rightarrow>
            if enc
            then logged Call_encrypt
                   (case encrypt L (security bj) iv (payload E) of
                      Inl e \<Rightarrow> ([], Inl e)
                    | Inr p \<Rightarrow> ([], Inr (E\<lparr>payload := p\<rparr>)))
            else ([], Inr E))"

definition serialize ::
    "extlib \<Rightarrow> BinJSON \<Rightarrow> int \<Rightarrow> buffer \<Rightarrow> jsval \<Rightarrow> int \<Rightarrow> bool \<Rightarrow> bool
     \<Rightarrow> call list \<times> (error + BinaryJSON)" where
  "serialize L bj now iv data schemaId compress enc =
     (case validator bj of
        None \<Rightarrow> serialize_encode L bj now iv data schemaId compress enc
      | Some sv \<Rightarrow>
          logged Call_validate
            (case validate sv data of
               Inl e \<Rightarrow> ([], Inl e)
             | Inr ok \<Rightarrow> serialize_encode L bj now iv data schemaId compress enc))"

type_synonym ref = nat
type_synonym store = "ref \<Rightarrow> BinaryJSON option"

definition deserialize ::
    "extlib \<Rightarrow> BinJSON \<Rightarrow> store \<Rightarrow> ref \<Rightarrow> bool \<Rightarrow> store \<times> (error + jsval)" where
  "deserialize L bj st r dec =
     (case st r of
        None \<Rightarrow> (st, Inl TypeError)
      | Some E \<Rightarrow>
          if dec
          then (case decrypt L (security bj) (payload E) of
                  Inl e \<Rightarrow> (st, Inl e)
                | Inr p \<Rightarrow> (st(r \<mapsto> E\<lparr>payload := p\<rparr>), toDict L (E\<lparr>payload := p\<rparr>)))
          else (st, toDict L E))"

definition setHandlerMode :: "BinJSON \<Rightarrow> string \<Rightarrow> nat \<Rightarrow> BinJSON" where
  "setHandlerMode bj m n = bj\<lparr>handler := \<lparr>mode = m, chunkSize = n\<rparr>\<rparr>"

subsection \<open>BinJSONWebSocket\<close>

text \<open>
  \<^verbatim>\<open>
  this.ws.onmessage = (event) => {
    const chunk = Buffer.from(event.data);
    this.chunkBuffer.push(chunk);
    // Assume the first chunk contains the header and metadata
    if (this.chunkBuffer.length === 1) {
      const header = this.chunkBuffer[0].slice(0, 6);
      const metadataLength = this.chunkBuffer[0].readUInt32BE(6);
      const metadata = msgpack.decode(this.chunkBuffer[0].slice(6, 6 + metadataLength));
      this.currentBinaryJSON = new BinaryJSON(
        header, metadata, Buffer.concat(this.chunkBuffer).slice(6 + metadataLength));
    } else {
      // Append to payload
      this.currentBinaryJSON.payload =
        Buffer.concat([this.currentBinaryJSON.payload, chunk]);
    }
  };
  send(binaryJSON) {
    if (this.ws.readyState !== WebSocket.OPEN) {
      throw new NetworkError('WebSocket not connected');
    }
    const chunks = this.binjson.handler.process(Buffer.concat([
      binaryJSON.header, msgpack.encode(binaryJSON.metadata), binaryJSON.payload ]));
    chunks.forEach((chunk) => { this.ws.send(chunk); });
  }
  getReceivedData() {
    if (!this.currentBinaryJSON) { throw new BinJSONError('No data received yet'); }
    return this.binjson.deserialize(this.currentBinaryJSON);
  }
  \<close>
  The handler returns the object's fields after the message and the error it threw,
  if any: what it assigned before throwing stays assigned. \<open>send\<close> returns the
  values it hands to \<^verbatim>\<open>ws.send\<close>, in order; \<^verbatim>\<open>forEach\<close> on the array of the streaming
  mode visits the chunks, on the buffer of the batch mode it visits the bytes as
  numbers.
\<close>

record BinJSONWebSocket =
  ws_open :: bool
  binjson :: BinJSON
  chunkBuffer :: "buffer list"
  currentBinaryJSON :: "BinaryJSON option"

definition createWebSocket :: "BinJSON \<Rightarrow> bool \<Rightarrow> BinJSONWebSocket" where
  "createWebSocket bj is_open =
     \<lparr>ws_open = is_open, binjson = bj, chunkBuffer = [], currentBinaryJSON = None\<rparr>"

definition onmessage ::
    "extlib \<Rightarrow> BinJSONWebSocket \<Rightarrow> buffer \<Rightarrow> BinJSONWebSocket \<times> error option" where
  "onmessage L w chunk =
     (let w1 = w\<lparr>chunkBuffer := chunkBuffer w @ [chunk]\<rparr>
      in if length (chunkBuffer w1) = 1
         then (let first = chunkBuffer w1 ! 0;
                   hdr = slice first 0 6
               in case readUInt32BE first 6 of
                    Inl e \<Rightarrow> (w1, Some e)
                  | Inr metadataLength \<Rightarrow>
                      (case msgpack_decode L (slice first 6 (6 + metadataLength)) of
                         None \<Rightarrow> (w1, Some MsgpackError)
                       | Some md \<Rightarrow>
                           (w1\<lparr>currentBinaryJSON :=
                                 Some \<lparr>header = hdr, metadata = md,
                                       payload = drop (6 + metadataLength)
                                                   (concat (chunkBuffer w1))\<rparr>\<rparr>,
                            None)))
         else (case currentBinaryJSON w1 of
                 None \<Rightarrow> (w1, Some TypeError)
               | Some E \<Rightarrow>
                   (w1\<lparr>currentBinaryJSON := Some (E\<lparr>payload := payload E @ chunk\<rparr>)\<rparr>,
                    None)))"

text \<open>The handler run on each message of a sequence, with the errors thrown on the way.\<close>

fun receive_all ::
    "extlib \<Rightarrow> BinJSONWebSocket \<Rightarrow> buffer list \<Rightarrow> BinJSONWebSocket \<times> error list" where
  "receive_all L w [] = (w, [])"
| "receive_all L w (c # cs) =
     (case onmessage L w c of
        (w1, None) \<Rightarrow> receive_all L w1 cs
      | (w1, Some e) \<Rightarrow> (case receive_all L w1 cs of (w2, es) \<Rightarrow> (w2, e # es)))"

datatype ws_data = Binary buffer | Number byte

definition send ::
    "extlib \<Rightarrow> BinJSONWebSocket \<Rightarrow> BinaryJSON \<Rightarrow> (error + ws_data list) option" where
  "send L w E =
     (if \<not> ws_open w then Some (Inl NetworkError)
      else case process (handler (binjson w))
                  (header E @ msgpack_encode L (metadata E) @ payload E) of
             None \<Rightarrow> None
           | Some (Whole d) \<Rightarrow> Some (Inr (map Number d))
           | Some (Chunks cs) \<Rightarrow> Some (Inr (map Binary cs)))"

definition getReceivedData :: "extlib \<Rightarrow> BinJSONWebSocket \<Rightarrow> error + jsval" where
  "getReceivedData L w =
     (case currentBinaryJSON w of
        None \<Rightarrow> Inl BinJSONError
      | Some E \<Rightarrow> snd (deserialize L (binjson w) (Map.empty(0 \<mapsto> E)) 0 False))"

subsection \<open>Files\<close>

text \<open>
  \<^verbatim>\<open>
  function saveToFile(binaryJson, filepath) {
    const buffer = Buffer.concat([
      binaryJson.header, msgpack.encode(binaryJson.metadata), binaryJson.payload ]);
    fs.writeFileSync(filepath, buffer);
  }
  function loadFromFile(filepath) {
    const data = fs.readFileSync(filepath);
    const header = data.slice(0, 6);
    const metadataLength = data.readUInt32BE(6);
    const metadata = msgpack.decode(data.slice(6, 6 + metadataLength));
    const payload = data.slice(6 + metadataLength);
    return new BinaryJSON(header, metadata, payload);
  }
  \<close>
  The file system is a map from paths to contents.
\<close>

type_synonym files = "string \<Rightarrow> buffer option"

definition saveToFile :: "extlib \<Rightarrow> files \<Rightarrow> BinaryJSON \<Rightarrow> string \<Rightarrow> files" where
  "saveToFile L fs E filepath =
     fs(filepath \<mapsto> header E @ msgpack_encode L (metadata E) @ payload E)"

definition loadFromFile :: "extlib \<Rightarrow> files \<Rightarrow> string \<Rightarrow> error + BinaryJSON" where
  "loadFromFile L fs filepath =
     (case fs filepath of
        None \<Rightarrow> Inl FsError
      | Some data \<Rightarrow>
          (case readUInt32BE data 6 of
             Inl e \<Rightarrow> Inl e
           | Inr metadataLength \<Rightarrow>
               (case msgpack_decode L (slice data 6 (6 + metadataLength)) of
                  None \<Rightarrow> Inl MsgpackError
                | Some md \<Rightarrow>
                    Inr \<lparr>header = slice data 0 6, metadata = md,
                         payload = drop (6 + metadataLength) data\<rparr>)))"

subsection \<open>A reference instance of the libraries\<close>

text \<open>
  The theorems below hold for every value of the library record. Closed instances of
  them are evaluated on the following one.
  \<^item> MessagePack as msgpack-lite writes and reads it, for the values of \<open>jsval\<close> with
    ASCII strings: nil, booleans, the integer formats up to 32 bits, float 64 for the
    integers beyond them, strings, arrays and maps. The reader reads one value at the
    start of the buffer and ignores what follows; \<open>None\<close> is the error msgpack-lite
    throws when the buffer ends before the value does. It covers nil, the booleans,
    the fixints, uint 8 to 32, int 8 to 32 (two's complement), float 64 with an
    integer value, ASCII strings, arrays and maps of every size. A map becomes an
    object by assigning its entries in order: a key that is a number, a boolean or
    nil is the property named by its text, a key met again keeps its place and takes
    the new value, and keys that are array indices come first in ascending order, as
    JavaScript orders them. What \<open>jsval\<close> cannot hold is outside this instance,
    which answers \<open>None\<close> there as well: bin, ext, float 32, a float 64 with a
    fraction, the 64-bit integers, strings with bytes above 127, keys that are
    arrays or maps, numbers of 22 digits or more as keys, and the key
    \<^verbatim>\<open>__proto__\<close>. No instance below holds any of them.
  \<^item> zlib streams of stored blocks, which is what zlib writes at compression level
    0. The reader checks the header, the stored blocks and the Adler-32 checksum and
    ignores what follows the checksum; a stream with a compressed block is outside
    this instance (\<open>None\<close>).
  \<^item> The null cipher: the ciphertext is the plaintext, and decryption parses the
    Base64 text and accepts ASCII plaintexts.
\<close>

definition be16_bytes :: "nat \<Rightarrow> buffer" where
  "be16_bytes v = [of_nat (v div 2 ^ 8), of_nat v]"

definition be64_bytes :: "nat \<Rightarrow> buffer" where
  "be64_bytes v = be32_bytes (v div 2 ^ 32) @ be32_bytes v"

definition be_value :: "buffer \<Rightarrow> nat" where
  "be_value bs = foldl (\<lambda>acc b. acc * 256 + unat b) 0 bs"

fun bit_length :: "nat \<Rightarrow> nat" where
  "bit_length n = (if n = 0 then 0 else Suc (bit_length (n div 2)))"

declare bit_length.simps [simp del]

definition float64_of_int :: "int \<Rightarrow> buffer" where
  "float64_of_int v =
     (if v = 0 then replicate 8 0
      else let a = nat \<bar>v\<bar>;
               e = bit_length a - 1;
               m = (if e \<le> 52 then (a - 2 ^ e) * 2 ^ (52 - e)
                    else (a - 2 ^ e) div 2 ^ (e - 52));
               s = (if v < 0 then 2 ^ 63 else 0)
           in be64_bytes (s + (e + 1023) * 2 ^ 52 + m))"

definition int_of_float64 :: "buffer \<Rightarrow> int option" where
  "int_of_float64 bs =
     (let w = be_value bs;
          ex = (w div 2 ^ 52) mod 2048;
          m = w mod 2 ^ 52;
          sig = 2 ^ 52 + m;
          sgn = (if 2 ^ 63 \<le> w then - 1 else 1)
      in if ex = 0 \<and> m = 0 then Some 0
         else if ex < 1023 \<or> ex = 2047 then None
         else if 1075 \<le> ex then Some (sgn * int (sig * 2 ^ (ex - 1075)))
         else if sig mod 2 ^ (1075 - ex) = 0 then Some (sgn * int (sig div 2 ^ (1075 - ex)))
         else None)"

definition mp_number :: "int \<Rightarrow> buffer" where
  "mp_number v =
     (if v < - 2147483648 \<or> 2147483647 < v then 0xcb # float64_of_int v
      else if - 32 \<le> v \<and> v \<le> 127 then [of_int v]
      else if 0 \<le> v
           then (if v \<le> 255 then [0xcc, of_int v]
                 else if v \<le> 65535 then 0xcd # be16_bytes (nat v)
                 else 0xce # be32_bytes (nat v))
           else (if - 128 \<le> v then [0xd0, of_int v]
                 else if - 32768 \<le> v then 0xd1 # be16_bytes (nat (v + 65536))
                 else 0xd2 # be32_bytes (nat (v + 4294967296))))"

definition mp_str :: "string \<Rightarrow> buffer" where
  "mp_str s =
     (if length s < 32 then [of_nat (160 + length s)]
      else if length s \<le> 255 then [0xd9, of_nat (length s)]
      else if length s \<le> 65535 then 0xda # be16_bytes (length s)
      else 0xdb # be32_bytes (length s)) @ ascii_bytes s"

definition mp_array_header :: "nat \<Rightarrow> buffer" where
  "mp_array_header n =
     (if n < 16 then [of_nat (144 + n)]
      else if n \<le> 65535 then 0xdc # be16_bytes n
      else 0xdd # be32_bytes n)"

definition mp_map_header :: "nat \<Rightarrow> buffer" where
  "mp_map_header n =
     (if n < 16 then [of_nat (128 + n)]
      else if n \<le> 65535 then 0xde # be16_bytes n
      else 0xdf # be32_bytes n)"

fun mp_encode :: "jsval \<Rightarrow> buffer" where
  "mp_encode JUndefined = [0xc0]"
| "mp_encode JNull = [0xc0]"
| "mp_encode (JBool b) = [if b then 0xc3 else 0xc2]"
| "mp_encode (JNum v) = mp_number v"
| "mp_encode (JStr s) = mp_str s"
| "mp_encode (JArr xs) = mp_array_header (length xs) @ concat (map mp_encode xs)"
| "mp_encode (JObj kvs) =
     mp_map_header (length kvs) @ concat (map (\<lambda>(k, v). mp_str k @ mp_encode v) kvs)"

definition mp_string :: "buffer \<Rightarrow> jsval option" where
  "mp_string bs =
     (if list_all (\<lambda>b. unat b < 128) bs then Some (JStr (map (\<lambda>b. char_of (unat b)) bs))
      else None)"

definition mp_fixed ::
    "nat \<Rightarrow> buffer \<Rightarrow> (buffer \<Rightarrow> jsval option) \<Rightarrow> (jsval \<times> buffer) option" where
  "mp_fixed n bs f =
     (if length bs < n then None
      else (case f (take n bs) of None \<Rightarrow> None | Some v \<Rightarrow> Some (v, drop n bs)))"

definition mp_sized ::
    "nat \<Rightarrow> buffer \<Rightarrow> (buffer \<Rightarrow> jsval option) \<Rightarrow> (jsval \<times> buffer) option" where
  "mp_sized w bs f =
     (if length bs < w then None else mp_fixed (be_value (take w bs)) (drop w bs) f)"

definition twos_complement :: "nat \<Rightarrow> nat \<Rightarrow> int" where
  "twos_complement w v = (if v < 2 ^ (w - 1) then int v else int v - 2 ^ w)"

definition mp_scalar :: "nat \<Rightarrow> buffer \<Rightarrow> (jsval \<times> buffer) option" where
  "mp_scalar t bs =
     (if t \<le> 0x7f then Some (JNum (int t), bs)
      else if 0xa0 \<le> t \<and> t \<le> 0xbf then mp_fixed (t - 0xa0) bs mp_string
      else if t = 0xc0 then Some (JNull, bs)
      else if t = 0xc2 then Some (JBool False, bs)
      else if t = 0xc3 then Some (JBool True, bs)
      else if t = 0xcb then mp_fixed 8 bs (\<lambda>d. map_option JNum (int_of_float64 d))
      else if t = 0xcc then mp_fixed 1 bs (\<lambda>d. Some (JNum (int (be_value d))))
      else if t = 0xcd then mp_fixed 2 bs (\<lambda>d. Some (JNum (int (be_value d))))
      else if t = 0xce then mp_fixed 4 bs (\<lambda>d. Some (JNum (int (be_value d))))
      else if t = 0xd0 then mp_fixed 1 bs (\<lambda>d. Some (JNum (twos_complement 8 (be_value d))))
      else if t = 0xd1 then mp_fixed 2 bs (\<lambda>d. Some (JNum (twos_complement 16 (be_value d))))
      else if t = 0xd2 then mp_fixed 4 bs (\<lambda>d. Some (JNum (twos_complement 32 (be_value d))))
      else if t = 0xd9 then mp_sized 1 bs mp_string
      else if t = 0xda then mp_sized 2 bs mp_string
      else if t = 0xdb then mp_sized 4 bs mp_string
      else if 0xe0 \<le> t then Some (JNum (int t - 256), bs)
      else None)"

fun decimal :: "nat \<Rightarrow> string" where
  "decimal n =
     (if n < 10 then [char_of (48 + n)] else decimal (n div 10) @ [char_of (48 + n mod 10)])"

declare decimal.simps [simp del]

definition key_string :: "jsval \<Rightarrow> string option" where
  "key_string v =
     (case v of
        JStr s \<Rightarrow> Some s
      | JNum n \<Rightarrow>
          if n \<le> - (10 ^ 21) \<or> 10 ^ 21 \<le> n then None
          else if n < 0 then Some (CHR ''-'' # decimal (nat (- n)))
          else Some (decimal (nat n))
      | JBool b \<Rightarrow> Some (if b then ''true'' else ''false'')
      | JNull \<Rightarrow> Some ''null''
      | _ \<Rightarrow> None)"

definition index_of_key :: "string \<Rightarrow> nat option" where
  "index_of_key k =
     (if k \<noteq> [] \<and> list_all (\<lambda>c. 48 \<le> (of_char c :: nat) \<and> (of_char c :: nat) \<le> 57) k
         \<and> (k = ''0'' \<or> hd k \<noteq> CHR ''0'')
         \<and> foldl (\<lambda>a c. a * 10 + (of_char c - 48)) 0 k \<le> (4294967294 :: nat)
      then Some (foldl (\<lambda>a c. a * 10 + (of_char c - 48)) 0 k)
      else None)"

fun obj_insert_index ::
    "nat \<Rightarrow> string \<Rightarrow> jsval \<Rightarrow> (string \<times> jsval) list \<Rightarrow> (string \<times> jsval) list" where
  "obj_insert_index n k v [] = [(k, v)]"
| "obj_insert_index n k v (p # rest) =
     (case index_of_key (fst p) of
        None \<Rightarrow> (k, v) # p # rest
      | Some m \<Rightarrow> if m < n then p # obj_insert_index n k v rest else (k, v) # p # rest)"

definition obj_put :: "(string \<times> jsval) list \<Rightarrow> string \<Rightarrow> jsval \<Rightarrow> (string \<times> jsval) list" where
  "obj_put kvs k v =
     (if map_of kvs k \<noteq> None then map (\<lambda>p. if fst p = k then (k, v) else p) kvs
      else case index_of_key k of
             None \<Rightarrow> kvs @ [(k, v)]
           | Some n \<Rightarrow> obj_insert_index n k v kvs)"

definition mp_key :: "(jsval \<times> buffer) option \<Rightarrow> (string \<times> buffer) option" where
  "mp_key r =
     (case r of
        None \<Rightarrow> None
      | Some (kv, rest) \<Rightarrow>
          (case key_string kv of
             None \<Rightarrow> None
           | Some k \<Rightarrow> if k = ''__proto__'' then None else Some (k, rest)))"

definition mp_count :: "nat \<Rightarrow> buffer \<Rightarrow> (nat \<times> buffer) option" where
  "mp_count w bs = (if length bs < w then None else Some (be_value (take w bs), drop w bs))"

fun mp_read :: "nat \<Rightarrow> buffer \<Rightarrow> (jsval \<times> buffer) option"
  and mp_read_items :: "nat \<Rightarrow> nat \<Rightarrow> buffer \<Rightarrow> (jsval list \<times> buffer) option"
  and mp_read_pairs ::
    "nat \<Rightarrow> nat \<Rightarrow> buffer \<Rightarrow> (string \<times> jsval) list
     \<Rightarrow> ((string \<times> jsval) list \<times> buffer) option"
where
  "mp_read 0 bs = None"
| "mp_read (Suc f) [] = None"
| "mp_read (Suc f) (b # bs) =
     (if 0x80 \<le> unat b \<and> unat b \<le> 0x8f
      then map_option (\<lambda>(kvs, r). (JObj kvs, r)) (mp_read_pairs f (unat b - 0x80) bs [])
      else if 0x90 \<le> unat b \<and> unat b \<le> 0x9f
      then map_option (\<lambda>(xs, r). (JArr xs, r)) (mp_read_items f (unat b - 0x90) bs)
      else if unat b = 0xdc \<or> unat b = 0xdd
      then (case mp_count (if unat b = 0xdc then 2 else 4) bs of
              None \<Rightarrow> None
            | Some (n, r) \<Rightarrow> map_option (\<lambda>(xs, r'). (JArr xs, r')) (mp_read_items f n r))
      else if unat b = 0xde \<or> unat b = 0xdf
      then (case mp_count (if unat b = 0xde then 2 else 4) bs of
              None \<Rightarrow> None
            | Some (n, r) \<Rightarrow> map_option (\<lambda>(kvs, r'). (JObj kvs, r')) (mp_read_pairs f n r []))
      else mp_scalar (unat b) bs)"
| "mp_read_items f n bs =
     (if n = 0 then Some ([], bs)
      else (case mp_read f bs of
              None \<Rightarrow> None
            | Some (x, r) \<Rightarrow>
                map_option (\<lambda>(xs, r'). (x # xs, r')) (mp_read_items f (n - 1) r)))"
| "mp_read_pairs f n bs acc =
     (if n = 0 then Some (acc, bs)
      else (case mp_key (mp_read f bs) of
              None \<Rightarrow> None
            | Some (k, r) \<Rightarrow>
                (case mp_read f r of
                   None \<Rightarrow> None
                 | Some (v, r') \<Rightarrow> mp_read_pairs f (n - 1) r' (obj_put acc k v))))"

definition mp_decode :: "buffer \<Rightarrow> jsval option" where
  "mp_decode bs = map_option fst (mp_read (Suc (length bs)) bs)"

definition adler32 :: "buffer \<Rightarrow> nat" where
  "adler32 data =
     (let ab = foldl (\<lambda>(a, b) x. ((a + unat x) mod 65521, (b + (a + unat x) mod 65521) mod 65521))
                 (1, 0) data
      in snd ab * 65536 + fst ab)"

definition stored_block :: "bool \<Rightarrow> buffer \<Rightarrow> buffer" where
  "stored_block final d =
     [if final then 1 else 0,
      of_nat (length d), of_nat (length d div 256),
      of_nat (65535 - length d), of_nat ((65535 - length d) div 256)] @ d"

fun stored_blocks :: "buffer list \<Rightarrow> buffer" where
  "stored_blocks [] = stored_block True []"
| "stored_blocks [d] = stored_block True d"
| "stored_blocks (d # ds) = stored_block False d @ stored_blocks ds"

definition zlib_store :: "buffer \<Rightarrow> buffer" where
  "zlib_store data = [0x78, 0x01] @ stored_blocks (slices 65535 data) @ be32_bytes (adler32 data)"

fun read_stored :: "nat \<Rightarrow> buffer \<Rightarrow> buffer \<Rightarrow> (buffer \<times> buffer) option" where
  "read_stored (Suc f) (h # l0 # l1 # n0 # n1 # bs) acc =
     (if (unat h div 2) mod 4 \<noteq> 0 then None
      else if unat l0 + 256 * unat l1 + unat n0 + 256 * unat n1 \<noteq> 65535 then None
      else if length bs < unat l0 + 256 * unat l1 then None
      else if unat h mod 2 = 1
           then Some (acc @ take (unat l0 + 256 * unat l1) bs, drop (unat l0 + 256 * unat l1) bs)
           else read_stored f (drop (unat l0 + 256 * unat l1) bs)
                  (acc @ take (unat l0 + 256 * unat l1) bs))"
| "read_stored f bs acc = None"

definition zlib_unstore :: "buffer \<Rightarrow> buffer option" where
  "zlib_unstore bs =
     (case bs of
        c # f # rest \<Rightarrow>
          if unat c mod 16 \<noteq> 8 \<or> 7 < unat c div 16 \<or> (unat c * 256 + unat f) mod 31 \<noteq> 0
             \<or> (unat f div 32) mod 2 \<noteq> 0
          then None
          else (case read_stored (length rest) rest [] of
                  None \<Rightarrow> None
                | Some (out, tail) \<Rightarrow>
                    if take 4 tail = be32_bytes (adler32 out) then Some out else None)
      | _ \<Rightarrow> None)"

definition b64_value :: "char \<Rightarrow> nat" where
  "b64_value c =
     (let n = (of_char c :: nat) in
      if 65 \<le> n \<and> n \<le> 90 then n - 65
      else if 97 \<le> n \<and> n \<le> 122 then n - 71
      else if 48 \<le> n \<and> n \<le> 57 then n + 4
      else if n = 43 then 62
      else if n = 47 then 63
      else 0)"

fun b64_parse :: "string \<Rightarrow> buffer" where
  "b64_parse (a # b # c # d # rest) =
     (let t = b64_value a * 262144 + b64_value b * 4096 + b64_value c * 64 + b64_value d
      in [of_nat (t div 65536), of_nat (t div 256), of_nat t] @ b64_parse rest)"
| "b64_parse [a, b, c] =
     (let t = b64_value a * 262144 + b64_value b * 4096 + b64_value c * 64
      in [of_nat (t div 65536), of_nat (t div 256)])"
| "b64_parse [a, b] =
     (let t = b64_value a * 262144 + b64_value b * 4096 in [of_nat (t div 65536)])"
| "b64_parse _ = []"

definition null_decrypt_Utf8 :: "string \<Rightarrow> buffer \<Rightarrow> buffer \<Rightarrow> buffer option" where
  "null_decrypt_Utf8 k iv text =
     (let d = b64_parse (takeWhile (\<lambda>c. c \<noteq> CHR ''='') (map (\<lambda>b. char_of (unat b)) text))
      in if list_all (\<lambda>b. unat b < 128) d then Some d else None)"

definition ref_lib :: extlib where
  "ref_lib =
     \<lparr>msgpack_encode = mp_encode,
      msgpack_decode = mp_decode,
      deflateSync = zlib_store,
      inflateSync = zlib_unstore,
      AES_encrypt = (\<lambda>k iv d. Some d),
      AES_decrypt_Utf8 = null_decrypt_Utf8\<rparr>"

subsection \<open>The examples of the repository\<close>

text \<open>
  \<^verbatim>\<open>
  const schema = {
    type: 'object',
    properties: { id: { type: 'integer' }, name: { type: 'string' },
                  age: { type: 'integer', minimum: 0 } },
    required: ['id', 'name'],
  };
  const binjson = new BinJSON(schema, 'my_32byte_secret_key_here...');
  const data = { id: 1, name: 'Alice' };
  \<close>
  The schema of \<^verbatim>\<open>example.js\<close> as the predicate its compilation computes, the
  orchestrator built from it, and the value of \<^verbatim>\<open>websocket-example.js\<close>.
\<close>

definition example_schema :: "jsval \<Rightarrow> bool" where
  "example_schema v =
     (case v of
        JObj kvs \<Rightarrow>
          (case map_of kvs ''id'' of Some (JNum i) \<Rightarrow> True | _ \<Rightarrow> False) \<and>
          (case map_of kvs ''name'' of Some (JStr s) \<Rightarrow> True | _ \<Rightarrow> False) \<and>
          (case map_of kvs ''age'' of
             None \<Rightarrow> True | Some JUndefined \<Rightarrow> True | Some (JNum a) \<Rightarrow> 0 \<le> a | Some _ \<Rightarrow> False)
      | _ \<Rightarrow> False)"

definition example_binjson :: BinJSON where
  "example_binjson = new_BinJSON (Some example_schema) ''my_32byte_secret_key_here...''"

definition alice :: jsval where
  "alice = JObj [(''id'', JNum 1), (''name'', JStr ''Alice'')]"

text \<open>
  A sealed payload that the reference instance decrypts: 32 bytes taken as the
  initialization vector, then the Base64 text \<^verbatim>\<open>AQ==\<close> of the single byte 1 (the
  MessagePack encoding of the number 1); and a store holding an envelope with
  that payload.
\<close>

definition sealed_one :: buffer where
  "sealed_one = replicate 32 0 @ ascii_bytes ''AQ==''"

definition example_store :: store where
  "example_store =
     Map.empty(0 \<mapsto> \<lparr>header = [0x42, 0x4A, 0, 0, 0, 1],
                        metadata = JObj [(''schema_id'', JNum 1), (''timestamp'', JNum 1700000000000),
                                         (''compression'', JStr ''none'')],
                        payload = sealed_one\<rparr>)"

text \<open>
  The envelope \<^verbatim>\<open>binjson.serialize({ id: 1, name: 'Alice' }, 1, false, false)\<close> returns
  when the clock reads 1700000000000, and the 70 bytes that \<open>send\<close> and \<open>saveToFile\<close>
  concatenate for it: the header, the 48 bytes of the encoded metadata, the 16
  bytes of the payload.
\<close>

definition example_metadata :: jsval where
  "example_metadata =
     JObj [(''schema_id'', JNum 1), (''timestamp'', JNum 1700000000000),
           (''compression'', JStr ''none'')]"

definition example_envelope :: BinaryJSON where
  "example_envelope =
     \<lparr>header = [0x42, 0x4A, 0, 0, 0, 1],
      metadata = example_metadata,
      payload = [130, 162, 105, 100, 1, 164, 110, 97, 109, 101, 165, 65, 108, 105, 99, 101]\<rparr>"

definition example_stream :: buffer where
  "example_stream =
     [0x42, 0x4A, 0, 0, 0, 1,
      131, 169, 115, 99, 104, 101, 109, 97, 95, 105, 100, 1,
      169, 116, 105, 109, 101, 115, 116, 97, 109, 112, 203, 66, 120, 188, 254, 86, 128, 0, 0,
      171, 99, 111, 109, 112, 114, 101, 115, 115, 105, 111, 110, 164, 110, 111, 110, 101,
      130, 162, 105, 100, 1, 164, 110, 97, 109, 101, 165, 65, 108, 105, 99, 101]"

text \<open>
  Two sockets on the orchestrator of the examples: one after
  \<^verbatim>\<open>binjson.setHandlerMode('stream', 512)\<close>, one with the default handler. Then a
  12-byte message cut into a chunk of 4 and a chunk of 8 bytes: a header with schema
  id 1, the length 1, the byte \<^verbatim>\<open>0xC0\<close> (MessagePack's nil) and one more byte.
\<close>

definition stream_socket :: BinJSONWebSocket where
  "stream_socket = createWebSocket (setHandlerMode example_binjson ''stream'' 512) True"

definition example_socket :: BinJSONWebSocket where
  "example_socket = createWebSocket example_binjson True"


text \<open>
  An envelope whose compression tag is neither \<^verbatim>\<open>'none'\<close> nor \<^verbatim>\<open>'zlib'\<close>, with the
  encoding of the number 1 as its payload; a plaintext and an initialization vector.
\<close>

definition gzip_envelope :: BinaryJSON where
  "gzip_envelope =
     \<lparr>header = [0x42, 0x4A, 0, 0, 0, 1],
      metadata = JObj [(''schema_id'', JNum 1), (''timestamp'', JNum 1700000000000),
                       (''compression'', JStr ''gzip'')],
      payload = [1]\<rparr>"

definition hello :: buffer where
  "hello = ascii_bytes ''Hello, World!''"

definition example_iv :: buffer where
  "example_iv = [0, 1, 2, 3, 4, 5, 6, 7, 8, 9, 10, 11, 12, 13, 14, 15]"

subsection \<open>The chunker's loop\<close>

lemma slices_Nil [simp]: "slices n [] = []"
  by (simp add: slices.simps)

lemma slices_step: "0 < n \<Longrightarrow> xs \<noteq> [] \<Longrightarrow> slices n xs = take n xs # slices n (drop n xs)"
  by (subst slices.simps) (simp add: slice_def)

lemma process_loop_slices:
  "0 < n \<Longrightarrow> process_loop data n i acc = Some (acc @ slices n (drop i data))"
proof (induction "length data - i" arbitrary: i acc rule: less_induct)
  case less
  show ?case
  proof (cases "i < length data")
    case False
    then show ?thesis
      by (subst process_loop.simps) simp
  next
    case True
    then have ne: "drop i data \<noteq> []" by simp
    have smaller: "length data - (i + n) < length data - i"
      using True less.prems by arith
    have "process_loop data n i acc =
          process_loop data n (i + n) (acc @ [slice data i (i + n)])"
      using True by (subst process_loop.simps) simp
    also have "\<dots> = Some ((acc @ [slice data i (i + n)]) @ slices n (drop (i + n) data))"
      by (rule less.hyps [OF smaller less.prems])
    also have "\<dots> = Some (acc @ slices n (drop i data))"
      using less.prems ne by (simp add: slices_step slice_def add.commute)
    finally show ?thesis .
  qed
qed

text \<open>With chunk size 0 the loop does not return on a non-empty buffer.\<close>

lemma process_loop_zero:
  assumes "i < length data"
  shows "process_loop data 0 i acc = None"
proof (cases "process_loop data 0 i acc")
  case None
  then show ?thesis .
next
  case (Some r)
  have "n \<noteq> 0 \<or> length d \<le> j" if "process_loop d n j a = Some y" for d n j a y
  proof (rule process_loop.raw_induct
          [where P = "\<lambda>d n j a y. n \<noteq> 0 \<or> length d \<le> j", OF _ that])
    fix f d n j a y
    assume IH: "\<And>d' n' j' a' y'. f d' n' j' a' = Some y' \<Longrightarrow> n' \<noteq> 0 \<or> length d' \<le> j'"
      and step: "(if j < length d then f d n (j + n) (a @ [slice d j (j + n)]) else Some a)
                 = Some y"
    show "n \<noteq> 0 \<or> length d \<le> j"
    proof (cases "j < length d")
      case True
      with step have "f d n (j + n) (a @ [slice d j (j + n)]) = Some y" by simp
      from IH [OF this] True show ?thesis by auto
    next
      case False
      then show ?thesis by simp
    qed
  qed
  from this [OF Some] assms show ?thesis by simp
qed

lemma process_chunk_size_zero:
  "mode h \<noteq> ''batch'' \<Longrightarrow> chunkSize h = 0 \<Longrightarrow> data \<noteq> [] \<Longrightarrow> process h data = None"
  by (simp add: process_def process_loop_zero)

lemma concat_slices: "0 < n \<Longrightarrow> concat (slices n xs) = xs"
proof (induction n xs rule: slices.induct)
  case (1 n xs)
  then show ?case
    by (cases "xs = []") (simp_all add: slices_step)
qed

lemma slices_eq_Nil: "0 < n \<Longrightarrow> slices n xs = [] \<longleftrightarrow> xs = []"
  by (cases "xs = []") (simp_all add: slices_step)

lemma slices_butlast_full:
  "0 < n \<Longrightarrow> list_all (\<lambda>c. length c = n) (butlast (slices n xs))"
proof (induction n xs rule: slices.induct)
  case (1 n xs)
  show ?case
  proof (cases "xs = []")
    case True
    then show ?thesis by simp
  next
    case False
    show ?thesis
    proof (cases "drop n xs = []")
      case True
      with False "1.prems" show ?thesis by (simp add: slices_step)
    next
      case dne: False
      then have "n < length xs" by simp
      with False dne "1.prems" "1.IH" show ?thesis
        by (simp add: slices_step slices_eq_Nil)
    qed
  qed
qed

lemma slices_last_length:
  "0 < n \<Longrightarrow> xs \<noteq> [] \<Longrightarrow>
   length (last (slices n xs)) = (if length xs mod n = 0 then n else length xs mod n)"
proof (induction n xs rule: slices.induct)
  case (1 n xs)
  show ?case
  proof (cases "drop n xs = []")
    case True
    then have le: "length xs \<le> n" by simp
    have "slices n xs = [take n xs]"
      using "1.prems" True by (simp add: slices_step)
    moreover have "0 < length xs" using "1.prems" by simp
    ultimately show ?thesis
      using le by (cases "length xs = n") simp_all
  next
    case False
    then have lt: "n < length xs" by simp
    have ih: "length (last (slices n (drop n xs))) =
        (if length (drop n xs) mod n = 0 then n else length (drop n xs) mod n)"
      using "1.IH" "1.prems" False by simp
    have "(length xs - n) mod n = length xs mod n"
      using lt by (simp add: le_mod_geq)
    with ih False "1.prems" show ?thesis
      by (simp add: slices_step slices_eq_Nil)
  qed
qed

lemma length_slices: "0 < n \<Longrightarrow> length (slices n xs) = (length xs + n - 1) div n"
proof (induction n xs rule: slices.induct)
  case (1 n xs)
  show ?case
  proof (cases "xs = []")
    case True
    then show ?thesis using "1.prems" by simp
  next
    case False
    show ?thesis
    proof (cases "n \<le> length xs")
      case True
      have pos: "0 < length xs" using False by simp
      have "length (slices n xs) = Suc ((length xs - n + n - 1) div n)"
        using "1.IH" "1.prems" False by (simp add: slices_step)
      also have "length xs - n + n - 1 = length xs - 1"
        using True by simp
      also have "Suc ((length xs - 1) div n) = (length xs - 1 + n) div n"
        using "1.prems" div_add_self2 [of n "length xs - 1"] by simp
      also have "length xs - 1 + n = length xs + n - 1"
        using False by (cases xs) simp_all
      finally show ?thesis .
    next
      case short: False
      then have "drop n xs = []" by simp
      moreover have "(length xs + n - 1) div n = 1"
      proof -
        have "0 < length xs" using False by simp
        then have "n \<le> length xs + n - 1" "length xs + n - 1 < 2 * n"
          using short by arith+
        then show ?thesis
          using "1.prems" by (simp add: div_nat_eqI)
      qed
      ultimately show ?thesis
        using "1.prems" False by (simp add: slices_step)
    qed
  qed
qed

subsection \<open>Bytes, hexadecimal and Base64 text\<close>

lemma unat_byte_less: "unat (b :: byte) < 256"
  using unsigned_less [of b, where 'a = nat] by simp

lemma hex_value_digit: "n < 16 \<Longrightarrow> hex_value (hex_digit n) = Some n"
  by (simp add: hex_value_def hex_digit_def)

lemma fromHex_toHex: "fromHex (toHex bs) = bs"
proof (induction bs)
  case Nil
  then show ?case by (simp add: toHex_def)
next
  case (Cons b bs)
  have hi: "unat b div 16 < 16" using unat_byte_less [of b] by simp
  have lo: "unat b mod 16 < 16" by simp
  have "toHex (b # bs) = hex_digit (unat b div 16) # hex_digit (unat b mod 16) # toHex bs"
    by (simp add: toHex_def)
  then show ?case
    using Cons.IH by (simp add: hex_value_digit [OF hi] hex_value_digit [OF lo])
qed

lemma length_base64: "length (base64 bs) = 4 * ((length bs + 2) div 3)"
proof (induction bs rule: base64.induct)
  case (4 a b c rest)
  have "(length rest + 5) div 3 = Suc ((length rest + 2) div 3)" by arith
  with 4 show ?case by (simp add: Let_def add.commute)
qed (simp_all add: Let_def)

lemma be32_value:
  fixes v :: nat
  assumes "v < 2 ^ 32"
  shows "(v div 2 ^ 24) mod 256 * 2 ^ 24 + (v div 2 ^ 16) mod 256 * 2 ^ 16
         + (v div 2 ^ 8) mod 256 * 2 ^ 8 + v mod 256 = v"
proof -
  define q1 where "q1 = v div 256"
  define q2 where "q2 = q1 div 256"
  define q3 where "q3 = q2 div 256"
  have e0: "v = q1 * 256 + v mod 256" by (simp add: q1_def)
  have e1: "q1 = q2 * 256 + q1 mod 256" by (simp add: q2_def)
  have e2: "q2 = q3 * 256 + q2 mod 256" by (simp add: q3_def)
  have d2: "v div 2 ^ 16 = q2" by (simp add: q2_def q1_def div_mult2_eq)
  have d3: "v div 2 ^ 24 = q3" by (simp add: q3_def q2_def q1_def div_mult2_eq)
  have "q3 < 256" using assms unfolding d3 [symmetric] by (simp add: less_mult_imp_div_less)
  then have e3: "q3 mod 256 = q3" by simp
  have d1: "v div 2 ^ 8 = q1" by (simp add: q1_def)
  show ?thesis
    unfolding d1 d2 d3 e3 using e0 e1 e2 by simp
qed

lemma be32_read: "v < 2 ^ 32 \<Longrightarrow> readUInt32BE (a @ be32_bytes v @ c) (length a) = Inr v"
  using be32_value [of v]
  by (simp add: readUInt32BE_def be32_bytes_def nth_append unat_of_nat)

lemma fromDict_header:
  assumes "fromDict L now v s compress = Inr E"
  shows "header E = MAGIC_NUMBER @ be32_bytes (nat s) \<and> readUInt32BE (header E) 2 = Inr (nat s)"
proof -
  have range: "0 \<le> s \<and> s \<le> 4294967295"
    using assms by (auto simp: fromDict_def writeUInt32BE_def Let_def split: if_splits)
  then have h: "header E = MAGIC_NUMBER @ be32_bytes (nat s)"
    using assms by (auto simp: fromDict_def writeUInt32BE_def MAGIC_NUMBER_def Let_def)
  have "nat s < 2 ^ 32" using range by (simp add: nat_less_iff)
  then have "readUInt32BE (MAGIC_NUMBER @ be32_bytes (nat s) @ []) (length MAGIC_NUMBER)
               = Inr (nat s)"
    by (rule be32_read)
  moreover have "length MAGIC_NUMBER = 2"
    by (simp add: MAGIC_NUMBER_def)
  ultimately show ?thesis
    using h by simp
qed

subsection \<open>The chunker\<close>

text \<open>
  The two branches of \<open>process\<close>. In batch mode it returns the input buffer
  itself, unchanged, not a sequence of buffers. In streaming mode with a chunk
  size of at least 1 it returns ordered slices whose concatenation is the input:
  the lengths of the slices sum to the length of the input, every slice but the
  last has exactly the chunk size, and the last slice has the chunk size when the
  input's length is a positive multiple of it and the remainder of the length
  otherwise; there are as many slices as the length divided by the chunk size,
  rounded up. This is the streaming half of claim C8, which holds as stated.
\<close>

theorem process_batch_stream:
  "(mode h = ''batch'' \<longrightarrow> process h b = Some (Whole b)) \<and>
   (mode h \<noteq> ''batch'' \<and> 1 \<le> chunkSize h \<longrightarrow>
      (\<exists>cs. process h b = Some (Chunks cs) \<and>
            concat cs = b \<and>
            sum_list (map length cs) = length b \<and>
            list_all (\<lambda>c. length c = chunkSize h) (butlast cs) \<and>
            (b = [] \<longrightarrow> cs = []) \<and>
            (b \<noteq> [] \<longrightarrow>
               length (last cs) =
                 (if length b mod chunkSize h = 0 then chunkSize h else length b mod chunkSize h)) \<and>
            length cs = (length b + chunkSize h - 1) div chunkSize h))"
proof (intro conjI impI)
  assume "mode h = ''batch''"
  then show "process h b = Some (Whole b)"
    by (simp add: process_def)
next
  assume a: "mode h \<noteq> ''batch'' \<and> 1 \<le> chunkSize h"
  then have pos: "0 < chunkSize h" by simp
  let ?cs = "slices (chunkSize h) b"
  have p: "process h b = Some (Chunks ?cs)"
    using a by (simp add: process_def process_loop_slices [OF pos])
  have c: "concat ?cs = b" by (rule concat_slices [OF pos])
  have "sum_list (map length ?cs) = length (concat ?cs)"
    by (simp add: length_concat)
  then have s: "sum_list (map length ?cs) = length b" by (simp only: c)
  show "\<exists>cs. process h b = Some (Chunks cs) \<and>
            concat cs = b \<and>
            sum_list (map length cs) = length b \<and>
            list_all (\<lambda>c. length c = chunkSize h) (butlast cs) \<and>
            (b = [] \<longrightarrow> cs = []) \<and>
            (b \<noteq> [] \<longrightarrow>
               length (last cs) =
                 (if length b mod chunkSize h = 0 then chunkSize h else length b mod chunkSize h)) \<and>
            length cs = (length b + chunkSize h - 1) div chunkSize h"
    using p c s slices_butlast_full [OF pos, of b] slices_last_length [OF pos, of b]
      length_slices [OF pos, of b]
    by (intro exI [of _ ?cs]) simp
qed

text \<open>
  The batch mode on two bytes, and the streaming mode with chunk size 512 on 2000
  bytes: four slices, the last of 464 bytes.
\<close>

theorem process_batch_stream_witness:
  "process \<lparr>mode = ''batch'', chunkSize = 1024\<rparr> [0x42, 0x4A] = Some (Whole [0x42, 0x4A]) \<and>
   (\<exists>cs. process \<lparr>mode = ''stream'', chunkSize = 512\<rparr> (replicate 2000 0) = Some (Chunks cs) \<and>
         concat cs = replicate 2000 0 \<and>
         sum_list (map length cs) = 2000 \<and>
         list_all (\<lambda>c. length c = 512) (butlast cs) \<and>
         length (last cs) = 464 \<and>
         length cs = 4)"
  using process_batch_stream [of "\<lparr>mode = ''batch'', chunkSize = 1024\<rparr>" "[0x42, 0x4A]"]
    process_batch_stream [of "\<lparr>mode = ''stream'', chunkSize = 512\<rparr>" "replicate 2000 0"]
  by simp

subsection \<open>Schema gating\<close>

text \<open>
  Claim C9. When a schema is configured and the value fails validation,
  \<open>serialize\<close> raises SchemaError, and the only call it has made is the one to the
  validator: neither \<open>fromDict\<close> (which encodes and compresses) nor \<open>encrypt\<close> is
  invoked.
\<close>

theorem serialize_schema_gate:
  "validator bj = Some sv \<Longrightarrow> \<not> validateFn sv data \<Longrightarrow>
   serialize L bj now iv data schemaId compress enc = ([Call_validate], Inl SchemaError)"
  by (simp add: serialize_def validate_def logged_def)

text \<open>
  The schema of the examples rejects a value without the required field
  \<^verbatim>\<open>name\<close>.
\<close>

theorem serialize_schema_gate_witness:
  "serialize ref_lib example_binjson 1700000000000 (replicate 16 0) (JObj [(''id'', JNum 1)])
     1 True True = ([Call_validate], Inl SchemaError)"
  using serialize_schema_gate [of example_binjson "\<lparr>validateFn = example_schema\<rparr>"
      "JObj [(''id'', JNum 1)]" ref_lib 1700000000000 "replicate 16 0" 1 True True]
  by (simp add: example_binjson_def new_BinJSON_def example_schema_def)

subsection \<open>Evaluating the reference instance\<close>

lemma mp_decode_one: "mp_decode [1] = Some (JNum 1)"
  by (simp add: mp_decode_def mp_scalar_def)

lemma mp_decode_empty: "mp_decode [] = None"
  by (simp add: mp_decode_def)

lemma alice_bytes:
  "mp_encode alice = [130, 162, 105, 100, 1, 164, 110, 97, 109, 101, 165, 65, 108, 105, 99, 101]"
  by (simp add: alice_def mp_map_header_def mp_str_def mp_number_def ascii_bytes_def)

lemma alice_decode:
  "mp_decode [130, 162, 105, 100, 1, 164, 110, 97, 109, 101, 165, 65, 108, 105, 99, 101] = Some alice"
  by (simp add: alice_def mp_decode_def mp_scalar_def mp_fixed_def mp_key_def mp_string_def
      key_string_def obj_put_def index_of_key_def char_of_eq_iff)

lemma alice_adler:
  "adler32 [130, 162, 105, 100, 1, 164, 110, 97, 109, 101, 165, 65, 108, 105, 99, 101] = 984680123"
  by (simp add: adler32_def)

lemma alice_deflate:
  "zlib_store [130, 162, 105, 100, 1, 164, 110, 97, 109, 101, 165, 65, 108, 105, 99, 101] =
     [120, 1, 1, 16, 0, 239, 255,
      130, 162, 105, 100, 1, 164, 110, 97, 109, 101, 165, 65, 108, 105, 99, 101,
      58, 177, 6, 187]"
  by (simp add: zlib_store_def slices_step stored_block_def alice_adler be32_bytes_def)

lemma alice_inflate:
  "zlib_unstore [120, 1, 1, 16, 0, 239, 255,
      130, 162, 105, 100, 1, 164, 110, 97, 109, 101, 165, 65, 108, 105, 99, 101,
      58, 177, 6, 187] =
     Some [130, 162, 105, 100, 1, 164, 110, 97, 109, 101, 165, 65, 108, 105, 99, 101]"
  by (simp add: zlib_unstore_def alice_adler be32_bytes_def)

lemma decrypt_sealed_one: "decrypt ref_lib \<lparr>key = k\<rparr> sealed_one = Inr [1]"
  by (simp add: decrypt_def ref_lib_def sealed_one_def null_decrypt_Utf8_def slice_def
      ascii_bytes_def b64_value_def char_of_eq_iff)

lemma bit_length_now: "bit_length 1700000000000 = 41"
  by (simp add: bit_length.simps)

lemma float64_now: "float64_of_int 1700000000000 = [66, 120, 188, 254, 86, 128, 0, 0]"
  by (simp add: float64_of_int_def bit_length_now be64_bytes_def be32_bytes_def)

lemma example_metadata_bytes:
  "mp_encode example_metadata =
     [131, 169, 115, 99, 104, 101, 109, 97, 95, 105, 100, 1,
      169, 116, 105, 109, 101, 115, 116, 97, 109, 112, 203, 66, 120, 188, 254, 86, 128, 0, 0,
      171, 99, 111, 109, 112, 114, 101, 115, 115, 105, 111, 110, 164, 110, 111, 110, 101]"
  by (simp add: example_metadata_def mp_map_header_def mp_str_def mp_number_def ascii_bytes_def
      float64_now)

lemma example_serialize:
  "serialize ref_lib example_binjson 1700000000000 iv alice 1 False False =
     ([Call_validate, Call_fromDict], Inr example_envelope)"
  by (simp add: serialize_def serialize_encode_def logged_def validate_def example_binjson_def
      new_BinJSON_def fromDict_def writeUInt32BE_def MAGIC_NUMBER_def be32_bytes_def
      example_envelope_def example_metadata_def ref_lib_def alice_bytes)
     (simp add: example_schema_def alice_def)

lemma example_stream_eq:
  "header example_envelope @ msgpack_encode ref_lib (metadata example_envelope)
     @ payload example_envelope = example_stream"
  by (simp add: example_envelope_def ref_lib_def example_metadata_bytes example_stream_def)

lemma example_length_field: "readUInt32BE example_stream 6 = Inr 2208920419"
  by (simp add: readUInt32BE_def example_stream_def)

lemma example_metadata_decode: "mp_decode (drop 6 example_stream) = Some example_metadata"
  by (simp add: example_stream_def example_metadata_def mp_decode_def mp_scalar_def mp_fixed_def
      mp_key_def mp_string_def be_value_def int_of_float64_def key_string_def obj_put_def
      index_of_key_def char_of_eq_iff)

lemma base64_hello: "base64 hello = ''SGVsbG8sIFdvcmxkIQ==''"
  by (simp add: hello_def ascii_bytes_def b64_char_def)

subsection \<open>Round trip of the envelope codec\<close>

text \<open>
  Claim C4. For every value that MessagePack encodes and decodes back to itself
  (and, when compressing, whose encoding zlib deflates and inflates back to
  itself), every schema id in the range of an unsigned 32-bit integer and both
  values of \<open>compress\<close>, \<open>fromDict\<close> builds an envelope and \<open>toDict\<close> of that
  envelope returns the value.
\<close>

theorem toDict_fromDict:
  assumes "0 \<le> s" and "s \<le> 4294967295"
      and "msgpack_decode L (msgpack_encode L v) = Some v"
      and "compress \<Longrightarrow>
           inflateSync L (deflateSync L (msgpack_encode L v)) = Some (msgpack_encode L v)"
  shows "\<exists>E. fromDict L now v s compress = Inr E \<and> toDict L E = Inr v"
  using assms
  by (cases compress)
     (simp_all add: fromDict_def toDict_def writeUInt32BE_def MAGIC_NUMBER_def
        decode_or_throw_def Let_def)

text \<open>
  The value \<^verbatim>\<open>{ id: 1, name: 'Alice' }\<close> with compression, on the reference instance.
\<close>

theorem toDict_fromDict_witness:
  "\<exists>E. fromDict ref_lib 1700000000000 alice 1 True = Inr E \<and> toDict ref_lib E = Inr alice"
proof -
  have dec: "msgpack_decode ref_lib (msgpack_encode ref_lib alice) = Some alice"
    by (simp add: ref_lib_def alice_bytes alice_decode)
  have inf: "inflateSync ref_lib (deflateSync ref_lib (msgpack_encode ref_lib alice)) =
             Some (msgpack_encode ref_lib alice)"
    by (simp add: ref_lib_def alice_bytes alice_deflate alice_inflate)
  show ?thesis
    using toDict_fromDict [of 1 ref_lib alice True 1700000000000] dec inf by simp
qed

subsection \<open>Decryption assigns to the caller's envelope\<close>

text \<open>
  Claim C10. When the envelope referred to is in the store and \<open>decrypt\<close> returns
  the bytes \<open>p\<close> for its payload, \<open>deserialize\<close> with \<open>decrypt = true\<close> leaves the
  store with that envelope's payload replaced by \<open>p\<close> and decodes the envelope
  with the payload \<open>p\<close>; a second call on the same reference decrypts \<open>p\<close>, not
  the sealed payload; without \<open>decrypt\<close> the store is unchanged.
\<close>

theorem deserialize_decrypt_in_place:
  assumes "st r = Some E"
      and "decrypt L (security bj) (payload E) = Inr p"
  shows "deserialize L bj st r True = (st(r \<mapsto> E\<lparr>payload := p\<rparr>), toDict L (E\<lparr>payload := p\<rparr>)) \<and>
         deserialize L bj (fst (deserialize L bj st r True)) r True =
           (case decrypt L (security bj) p of
              Inl e \<Rightarrow> (st(r \<mapsto> E\<lparr>payload := p\<rparr>), Inl e)
            | Inr q \<Rightarrow> (st(r \<mapsto> E\<lparr>payload := q\<rparr>), toDict L (E\<lparr>payload := q\<rparr>))) \<and>
         fst (deserialize L bj st r False) = st"
  using assms by (simp add: deserialize_def split: sum.splits)

text \<open>
  On the reference instance: the first call leaves the payload \<^verbatim>\<open>[1]\<close> and
  returns 1, the second call decrypts \<^verbatim>\<open>[1]\<close> to the empty buffer and fails in
  the decoder.
\<close>

theorem deserialize_decrypt_in_place_witness:
  "(case example_store 0 of
      None \<Rightarrow> False
    | Some E \<Rightarrow>
        deserialize ref_lib example_binjson example_store 0 True =
          (example_store(0 \<mapsto> E\<lparr>payload := [1]\<rparr>), Inr (JNum 1)) \<and>
        deserialize ref_lib example_binjson
            (fst (deserialize ref_lib example_binjson example_store 0 True)) 0 True =
          (example_store(0 \<mapsto> E\<lparr>payload := []\<rparr>), Inl MsgpackError))"
proof -
  let ?E = "\<lparr>header = [0x42, 0x4A, 0, 0, 0, 1],
             metadata = JObj [(''schema_id'', JNum 1), (''timestamp'', JNum 1700000000000),
                              (''compression'', JStr ''none'')],
             payload = sealed_one\<rparr>"
  have s: "example_store 0 = Some ?E" by (simp add: example_store_def)
  have d: "decrypt ref_lib (security example_binjson) (payload ?E) = Inr [1]"
    by (simp add: decrypt_sealed_one example_binjson_def new_BinJSON_def)
  have d2: "decrypt ref_lib (security example_binjson) [1] = Inr []"
    by (simp add: decrypt_def ref_lib_def null_decrypt_Utf8_def slice_def
      example_binjson_def new_BinJSON_def)
  have t1: "toDict ref_lib (?E\<lparr>payload := [1]\<rparr>) = Inr (JNum 1)"
    by (simp add: toDict_def decode_or_throw_def ref_lib_def mp_decode_one)
  have t2: "toDict ref_lib (?E\<lparr>payload := []\<rparr>) = Inl MsgpackError"
    by (simp add: toDict_def decode_or_throw_def ref_lib_def mp_decode_empty)
  note th = deserialize_decrypt_in_place
      [where st = example_store and r = 0 and E = ?E and L = ref_lib and bj = example_binjson
         and p = "[1]", OF s d]
  have c1: "deserialize ref_lib example_binjson example_store 0 True =
              (example_store(0 \<mapsto> ?E\<lparr>payload := [1]\<rparr>), Inr (JNum 1))"
    using th [THEN conjunct1] t1 by simp
  have c2: "deserialize ref_lib example_binjson
              (fst (deserialize ref_lib example_binjson example_store 0 True)) 0 True =
              (example_store(0 \<mapsto> ?E\<lparr>payload := []\<rparr>), Inl MsgpackError)"
    using th [THEN conjunct2, THEN conjunct1] d2 t2 by simp
  show ?thesis
    using s c1 c2 by simp
qed

subsection \<open>Decoding and the compression tag\<close>

text \<open>
  Claim C7 as stated fails: an envelope whose compression tag is the unrecognized
  \<^verbatim>\<open>'gzip'\<close> is decoded as if it were not compressed, and \<open>toDict\<close> returns a value.
\<close>

theorem toDict_unrecognized_tag_counterexample:
  "toDict ref_lib gzip_envelope = Inr (JNum 1)"
  by (simp add: toDict_def gzip_envelope_def decode_or_throw_def ref_lib_def mp_decode_one)

text \<open>
  Claim C7, as the code has it. \<open>toDict\<close> asks only whether the tag is
  \<^verbatim>\<open>'zlib'\<close>. With any other tag, recognized or not, it decodes the payload as it
  is and returns the value when MessagePack decodes it; with the tag \<^verbatim>\<open>'zlib'\<close> it
  inflates first. A failure is the error of the library that failed (zlib or
  MessagePack), or a TypeError when the metadata is \<^verbatim>\<open>null\<close> or \<^verbatim>\<open>undefined\<close>; the
  file has no error class for a corrupt envelope.
\<close>

theorem toDict_tags_and_errors:
  "(metadata E = JNull \<or> metadata E = JUndefined \<longrightarrow> toDict L E = Inl TypeError) \<and>
   (get_prop (metadata E) ''compression'' = Inr tag \<and> tag \<noteq> JStr ''zlib'' \<longrightarrow>
      toDict L E = (case msgpack_decode L (payload E) of
                      None \<Rightarrow> Inl MsgpackError | Some v \<Rightarrow> Inr v)) \<and>
   (get_prop (metadata E) ''compression'' = Inr (JStr ''zlib'') \<longrightarrow>
      toDict L E = (case inflateSync L (payload E) of
                      None \<Rightarrow> Inl ZlibError
                    | Some d \<Rightarrow> (case msgpack_decode L d of
                                  None \<Rightarrow> Inl MsgpackError | Some v \<Rightarrow> Inr v))) \<and>
   (toDict L E = Inl e \<longrightarrow> e = TypeError \<or> e = ZlibError \<or> e = MsgpackError) \<and>
   (toDict L E = Inl TypeError \<longrightarrow> metadata E = JNull \<or> metadata E = JUndefined)"
proof (intro conjI impI)
  assume "metadata E = JNull \<or> metadata E = JUndefined"
  then show "toDict L E = Inl TypeError"
    by (auto simp: toDict_def)
next
  assume "get_prop (metadata E) ''compression'' = Inr tag \<and> tag \<noteq> JStr ''zlib''"
  then show "toDict L E = (case msgpack_decode L (payload E) of
                      None \<Rightarrow> Inl MsgpackError | Some v \<Rightarrow> Inr v)"
    by (simp add: toDict_def decode_or_throw_def)
next
  assume "get_prop (metadata E) ''compression'' = Inr (JStr ''zlib'')"
  then show "toDict L E = (case inflateSync L (payload E) of
                      None \<Rightarrow> Inl ZlibError
                    | Some d \<Rightarrow> (case msgpack_decode L d of
                                  None \<Rightarrow> Inl MsgpackError | Some v \<Rightarrow> Inr v))"
    by (simp add: toDict_def decode_or_throw_def split: option.splits)
next
  assume a: "toDict L E = Inl e"
  have g: "get_prop (metadata E) ''compression'' = Inl x \<Longrightarrow> x = TypeError" for x
    by (cases "metadata E") auto
  show "e = TypeError \<or> e = ZlibError \<or> e = MsgpackError"
    using a g
    by (auto simp: toDict_def decode_or_throw_def split: sum.splits if_splits option.splits)
next
  assume a: "toDict L E = Inl TypeError"
  show "metadata E = JNull \<or> metadata E = JUndefined"
    using a
    by (cases "metadata E")
       (auto simp: toDict_def decode_or_throw_def split: sum.splits if_splits option.splits)
qed

text \<open>
  The envelope tagged \<^verbatim>\<open>'gzip'\<close> decodes to 1; tagged \<^verbatim>\<open>'zlib'\<close>, its one-byte
  payload is not a zlib stream and the error is zlib's; with \<^verbatim>\<open>null\<close> for metadata
  the error is a TypeError.
\<close>

theorem toDict_tags_and_errors_witness:
  "toDict ref_lib gzip_envelope = Inr (JNum 1) \<and>
   toDict ref_lib (gzip_envelope\<lparr>metadata := JObj [(''compression'', JStr ''zlib'')]\<rparr>)
     = Inl ZlibError \<and>
   toDict ref_lib (gzip_envelope\<lparr>metadata := JNull\<rparr>) = Inl TypeError"
proof -
  let ?Z = "gzip_envelope\<lparr>metadata := JObj [(''compression'', JStr ''zlib'')]\<rparr>"
  let ?N = "gzip_envelope\<lparr>metadata := JNull\<rparr>"
  have g: "get_prop (metadata gzip_envelope) ''compression'' = Inr (JStr ''gzip'')
           \<and> JStr ''gzip'' \<noteq> JStr ''zlib''"
    by (simp add: gzip_envelope_def)
  have z: "get_prop (metadata ?Z) ''compression'' = Inr (JStr ''zlib'')"
    by simp
  have i: "inflateSync ref_lib (payload ?Z) = None"
    by (simp add: gzip_envelope_def ref_lib_def zlib_unstore_def)
  have d: "msgpack_decode ref_lib (payload gzip_envelope) = Some (JNum 1)"
    by (simp add: gzip_envelope_def ref_lib_def mp_decode_one)
  have a: "toDict ref_lib gzip_envelope = Inr (JNum 1)"
    using toDict_tags_and_errors [of gzip_envelope ref_lib "JStr ''gzip''"] g d by simp
  have b: "toDict ref_lib ?Z = Inl ZlibError"
    using toDict_tags_and_errors [of ?Z ref_lib "JStr ''zlib''"] z i by simp
  have c: "toDict ref_lib ?N = Inl TypeError"
    using toDict_tags_and_errors [of ?N ref_lib] by simp
  have "ZlibError = TypeError \<or> ZlibError = ZlibError \<or> ZlibError = MsgpackError"
    using toDict_tags_and_errors [of ?Z ref_lib "JStr ''zlib''" ZlibError] b by blast
  moreover have "metadata ?N = JNull \<or> metadata ?N = JUndefined"
    using toDict_tags_and_errors [of ?N ref_lib] c by blast
  ultimately show ?thesis using a b c by simp
qed

subsection \<open>The reassembler's transition\<close>





subsection \<open>The sealed payload\<close>

text \<open>
  Claim C6, as the code has it. The sealed payload \<open>encrypt\<close> returns is the 16
  raw bytes of the initialization vector followed immediately by the ciphertext as
  Base64 text, not by the raw ciphertext bytes: bytes 0 to 16 are the
  initialization vector, the bytes from 16 on are the characters of
  \<^verbatim>\<open>encrypted.toString()\<close>, four for every three bytes of ciphertext.
\<close>

theorem encrypt_layout:
  assumes "length iv = 16"
      and "AES_encrypt L (key sm) iv d = Some ct"
  shows "\<exists>sealed. encrypt L sm iv d = Inr sealed \<and>
           take 16 sealed = iv \<and>
           drop 16 sealed = ascii_bytes (base64 ct) \<and>
           length sealed = 16 + 4 * ((length ct + 2) div 3)"
  using assms by (simp add: encrypt_def fromHex_toHex ascii_bytes_def length_base64)

text \<open>
  The 13 bytes of \<^verbatim>\<open>Hello, World!\<close> on the reference instance: 16 bytes of
  initialization vector and 20 characters.
\<close>

theorem encrypt_layout_witness:
  "\<exists>sealed. encrypt ref_lib \<lparr>key = ''my_32byte_secret_key_here...''\<rparr> example_iv hello
             = Inr sealed \<and>
     take 16 sealed = example_iv \<and>
     drop 16 sealed = ascii_bytes ''SGVsbG8sIFdvcmxkIQ=='' \<and>
     length sealed = 36"
proof -
  have l: "length example_iv = 16" by (simp add: example_iv_def)
  have c: "AES_encrypt ref_lib (key \<lparr>key = ''my_32byte_secret_key_here...''\<rparr>) example_iv hello
           = Some hello"
    by (simp add: ref_lib_def)
  have h: "length hello = 13" by (simp add: hello_def ascii_bytes_def)
  show ?thesis
    using encrypt_layout [OF l c] l h by (simp add: base64_hello)
qed

text \<open>
  Whatever the cipher, a ciphertext that is not empty is never in the sealed payload
  as it is: its text is longer.
\<close>

lemma encrypt_never_raw:
  assumes "AES_encrypt L (key sm) iv d = Some ct" and "ct \<noteq> []"
  shows "encrypt L sm iv d \<noteq> Inr (iv @ ct)"
proof -
  have "0 < length ct" using assms(2) by simp
  then have "length ct < 4 * ((length ct + 2) div 3)" by arith
  then have "length (ascii_bytes (base64 ct)) \<noteq> length ct"
    by (simp add: ascii_bytes_def length_base64)
  then have "ascii_bytes (base64 ct) \<noteq> ct" by auto
  then show ?thesis
    using assms(1) by (simp add: encrypt_def fromHex_toHex)
qed

text \<open>
  Claim C6 as stated fails: where the cipher yields the ciphertext bytes
  \<^verbatim>\<open>Hello, World!\<close> (the null cipher of the reference instance), the sealed
  payload holds their Base64 text after the initialization vector, not the bytes.
\<close>

theorem encrypt_raw_ciphertext_counterexample:
  "AES_encrypt ref_lib ''my_32byte_secret_key_here...'' example_iv hello = Some hello \<and>
   encrypt ref_lib \<lparr>key = ''my_32byte_secret_key_here...''\<rparr> example_iv hello
     = Inr (example_iv @ ascii_bytes ''SGVsbG8sIFdvcmxkIQ=='') \<and>
   example_iv @ ascii_bytes ''SGVsbG8sIFdvcmxkIQ=='' \<noteq> example_iv @ hello"
  by (simp add: encrypt_def ref_lib_def fromHex_toHex base64_hello)
     (simp add: hello_def ascii_bytes_def)

text \<open>
  Claim C5, what the code computes instead. \<open>encrypt\<close> writes an initialization
  vector of 16 bytes and \<open>decrypt\<close> cuts its input at byte 32: the cipher is asked
  to decrypt the ciphertext's text without its first 16 characters, under an
  initialization vector of 32 bytes (the one used and those 16 characters).
\<close>

theorem decrypt_of_encrypt:
  assumes "length iv = 16"
      and "AES_encrypt L (key sm) iv d = Some ct"
  shows "\<exists>sealed. encrypt L sm iv d = Inr sealed \<and>
           decrypt L sm sealed =
             (case AES_decrypt_Utf8 L (key sm) (iv @ take 16 (ascii_bytes (base64 ct)))
                     (drop 16 (ascii_bytes (base64 ct))) of
                None \<Rightarrow> Inl SecurityError
              | Some p \<Rightarrow> Inr p)"
  using assms by (simp add: encrypt_def decrypt_def fromHex_toHex slice_def Let_def)

text \<open>
  On the reference instance \<^verbatim>\<open>Hello, World!\<close> comes back as \<^verbatim>\<open>!\<close>.
\<close>

theorem decrypt_of_encrypt_witness:
  "\<exists>sealed. encrypt ref_lib \<lparr>key = ''my_32byte_secret_key_here...''\<rparr> example_iv hello
             = Inr sealed \<and>
           decrypt ref_lib \<lparr>key = ''my_32byte_secret_key_here...''\<rparr> sealed
             = Inr (ascii_bytes ''!'')"
proof -
  have l: "length example_iv = 16" by (simp add: example_iv_def)
  have c: "AES_encrypt ref_lib (key \<lparr>key = ''my_32byte_secret_key_here...''\<rparr>) example_iv hello
           = Some hello"
    by (simp add: ref_lib_def)
  have n: "null_decrypt_Utf8 k v (drop 16 (ascii_bytes ''SGVsbG8sIFdvcmxkIQ=='')) = Some (ascii_bytes ''!'')" for k v
    by (simp add: null_decrypt_Utf8_def ascii_bytes_def b64_value_def char_of_eq_iff)
  show ?thesis
    using decrypt_of_encrypt [OF l c] n by (simp add: base64_hello ref_lib_def)
qed

subsection \<open>The bytes sent and saved\<close>

lemma send_stream_bytes:
  assumes "ws_open w" and "mode (handler (binjson w)) \<noteq> ''batch''"
      and "0 < chunkSize (handler (binjson w))"
  shows "\<exists>cs. send L w E = Some (Inr (map Binary cs)) \<and>
              concat cs = header E @ msgpack_encode L (metadata E) @ payload E"
proof -
  let ?n = "chunkSize (handler (binjson w))"
  let ?bytes = "header E @ msgpack_encode L (metadata E) @ payload E"
  have "send L w E = Some (Inr (map Binary (slices ?n ?bytes)))"
    using assms by (simp add: send_def process_def process_loop_slices)
  moreover have "concat (slices ?n ?bytes) = ?bytes"
    using assms(3) by (rule concat_slices)
  ultimately show ?thesis by blast
qed

lemma send_batch_numbers:
  assumes "ws_open w" and "mode (handler (binjson w)) = ''batch''"
  shows "send L w E =
           Some (Inr (map Number (header E @ msgpack_encode L (metadata E) @ payload E)))"
  using assms by (simp add: send_def process_def)

text \<open>
  Claim C8, on the 70 bytes of the example's envelope. With the default handler,
  whose mode is \<^verbatim>\<open>'batch'\<close>, \<open>process\<close> returns the buffer itself and not the
  one-element sequence holding it, while in streaming mode with chunk size 512 it
  returns that one-element sequence. \<open>send\<close>, the only caller, runs
  \<^verbatim>\<open>chunks.forEach(chunk => this.ws.send(chunk))\<close> on either result: on the
  default handler's buffer it hands the socket the 70 bytes one by one, as
  numbers, and not one binary message of 70 bytes.
\<close>

theorem process_batch_send_example:
  "mode (handler (binjson example_socket)) = ''batch'' \<and>
   process (handler (binjson example_socket)) example_stream = Some (Whole example_stream) \<and>
   process (handler (binjson example_socket)) example_stream \<noteq> Some (Chunks [example_stream]) \<and>
   process (handler (binjson stream_socket)) example_stream = Some (Chunks [example_stream]) \<and>
   send ref_lib example_socket example_envelope = Some (Inr (map Number example_stream)) \<and>
   send ref_lib example_socket example_envelope \<noteq> Some (Inr [Binary example_stream]) \<and>
   length (map Number example_stream) = 70"
proof -
  have len: "length example_stream = 70" by (simp add: example_stream_def)
  have ne: "example_stream \<noteq> []" by (simp add: example_stream_def)
  have m: "mode (handler (binjson example_socket)) = ''batch''"
    by (simp add: example_socket_def createWebSocket_def example_binjson_def new_BinJSON_def
        new_DataHandler_def)
  have o: "ws_open example_socket"
    by (simp add: example_socket_def createWebSocket_def)
  have p: "process (handler (binjson example_socket)) example_stream = Some (Whole example_stream)"
    using m by (simp add: process_def)
  have ch: "slices 512 example_stream = [example_stream]"
    using len ne by (simp add: slices_step)
  have q: "process (handler (binjson stream_socket)) example_stream
             = Some (Chunks [example_stream])"
    by (simp add: stream_socket_def createWebSocket_def setHandlerMode_def process_def
        process_loop_slices ch)
  have s: "send ref_lib example_socket example_envelope = Some (Inr (map Number example_stream))"
    using o p by (simp add: send_def example_stream_eq)
  have l: "length (map Number example_stream) = 70" using len by simp
  have d: "map Number example_stream \<noteq> [Binary example_stream]"
    using l by (metis length_Cons list.size(3) numeral_eq_one_iff One_nat_def semiring_norm(85)
        Suc_eq_plus1 add_0 num.distinct(1))
  show ?thesis using m p q s l d by simp
qed

text \<open>
  Claim C1, on the envelope that \<open>serialize\<close> returns for the value of the
  example, without compression or encryption. The file \<open>saveToFile\<close> writes is the
  header, the encoded metadata and the payload and nothing else: its length is
  the sum of their lengths, and bytes 6 to 10 are the first four bytes of the
  encoded metadata, not its length. \<open>loadFromFile\<close> reads those four bytes as the
  length 2208920419 and returns the envelope with an empty payload.
\<close>

theorem saveToFile_loadFromFile_example:
  "serialize ref_lib example_binjson 1700000000000 example_iv alice 1 False False
     = ([Call_validate, Call_fromDict], Inr example_envelope) \<and>
   saveToFile ref_lib Map.empty example_envelope ''data.bin'' ''data.bin'' = Some example_stream \<and>
   length example_stream =
     length (header example_envelope) + length (mp_encode (metadata example_envelope))
       + length (payload example_envelope) \<and>
   slice example_stream 6 10 = [0x83, 0xA9, 0x73, 0x63] \<and>
   loadFromFile ref_lib (saveToFile ref_lib Map.empty example_envelope ''data.bin'') ''data.bin''
     = Inr (example_envelope\<lparr>payload := []\<rparr>)"
proof -
  have s: "saveToFile ref_lib Map.empty example_envelope ''data.bin'' ''data.bin''
           = Some example_stream"
    by (simp add: saveToFile_def example_stream_eq)
  have l: "length example_stream =
     length (header example_envelope) + length (mp_encode (metadata example_envelope))
       + length (payload example_envelope)"
    by (simp add: example_envelope_def example_metadata_bytes example_stream_def)
  have f: "slice example_stream 6 10 = [0x83, 0xA9, 0x73, 0x63]"
    by (simp add: slice_def example_stream_def)
  have md: "msgpack_decode ref_lib (slice example_stream 6 2208920425) = Some example_metadata"
    using example_metadata_decode by (simp add: slice_def ref_lib_def example_stream_def)
  have rest: "slice example_stream 0 6 = header example_envelope
              \<and> drop 2208920425 example_stream = []"
    by (simp add: slice_def example_stream_def example_envelope_def)
  have ld: "loadFromFile ref_lib (saveToFile ref_lib Map.empty example_envelope ''data.bin'')
              ''data.bin'' = Inr (example_envelope\<lparr>payload := []\<rparr>)"
    unfolding loadFromFile_def s
    by (simp add: example_length_field md rest) (simp add: example_envelope_def)
  show ?thesis using example_serialize [of example_iv] s l f ld by simp
qed

text \<open>
  Claim C2, on the envelope of the example in streaming mode with chunk size 512.
  \<open>send\<close> emits the 70 bytes as one chunk; the handler, given that chunk,
  rebuilds the header and the metadata but an empty payload.
\<close>

theorem send_receive_example:
  "send ref_lib stream_socket example_envelope = Some (Inr [Binary example_stream]) \<and>
   receive_all ref_lib stream_socket [example_stream] =
     (stream_socket\<lparr>chunkBuffer := [example_stream],
                     currentBinaryJSON := Some (example_envelope\<lparr>payload := []\<rparr>)\<rparr>, [])"
proof -
  have len: "length example_stream = 70" by (simp add: example_stream_def)
  have ne: "example_stream \<noteq> []" by (simp add: example_stream_def)
  have ch: "slices 512 example_stream = [example_stream]"
    using len ne by (simp add: slices_step)
  have p: "process (handler (binjson stream_socket)) example_stream = Some (Chunks [example_stream])"
    by (simp add: stream_socket_def createWebSocket_def setHandlerMode_def process_def
        process_loop_slices ch)
  have s: "send ref_lib stream_socket example_envelope = Some (Inr [Binary example_stream])"
    using p by (simp add: send_def example_stream_eq) (simp add: stream_socket_def createWebSocket_def)
  have r: "onmessage ref_lib stream_socket example_stream =
     (stream_socket\<lparr>chunkBuffer := [example_stream],
                     currentBinaryJSON := Some (example_envelope\<lparr>payload := []\<rparr>)\<rparr>, None)"
    using example_metadata_decode len
    by (simp add: onmessage_def stream_socket_def createWebSocket_def example_length_field
          slice_def ref_lib_def)
       (simp add: example_stream_def example_envelope_def)
  show ?thesis using s r by simp
qed

end
